theory Spec2Isabelle
  imports Main "HOL-Library.Char_ord" "HOL-Library.List_Lexorder"
begin

section \<open>JavaScript values and library functions used by the server\<close>

text \<open>
  A JavaScript string is modelled as a \<^typ>\<open>string\<close>: a list of code units, one
  \<^typ>\<open>char\<close> per unit (code units 0 to 255), so that \<open>length\<close> is the string's
  \<open>.length\<close>, \<open>take n\<close> is \<open>substring(0, n)\<close> and \<open>slice(0, n)\<close>, and \<open>@\<close> is
  concatenation. The default \<open>Array.prototype.sort()\<close> orders strings by code units,
  lexicographically, a proper prefix first: this is the order of lists of characters,
  and \<^const>\<open>sort\<close> is used for it.
\<close>

datatype js_error = Error string | TypeError string

fun message :: "js_error \<Rightarrow> string" where
  "message (Error m) = m"
| "message (TypeError m) = m"

fun error_name :: "js_error \<Rightarrow> string" where
  "error_name (Error m) = ''Error''"
| "error_name (TypeError m) = ''TypeError''"

definition toString :: "js_error \<Rightarrow> string" where
  \<comment> \<open>what a template literal makes of an error object: \<open>Error.prototype.toString\<close>\<close>
  "toString e = (if message e = [] then error_name e else error_name e @ '': '' @ message e)"

fun show_nat :: "nat \<Rightarrow> string" where
  \<comment> \<open>a number in a template literal: its decimal digits\<close>
  "show_nat n =
     (if n < 10 then [char_of (48 + n)]
      else show_nat (n div 10) @ [char_of (48 + n mod 10)])"

definition is_space :: "char \<Rightarrow> bool" where
  \<comment> \<open>the white space and line terminators of \<open>trim()\<close> and of the class \<open>\s\<close>, among the
      code units up to 255: tab, LF, VT, FF, CR, space, no-break space\<close>
  "is_space c = (c \<in> set [CHR 0x09, CHR 0x0A, CHR 0x0B, CHR 0x0C, CHR 0x0D, CHR 0x20, CHR 0xA0])"

definition trim :: "string \<Rightarrow> string" where
  "trim s = rev (dropWhile is_space (rev (dropWhile is_space s)))"

fun split_on :: "(char \<Rightarrow> bool) \<Rightarrow> string \<Rightarrow> string list" where
  \<comment> \<open>\<open>split\<close> on a separator of one code unit: every separator ends a piece, empty
      pieces are kept\<close>
  "split_on sep [] = [[]]"
| "split_on sep (c # s) =
     (if sep c then [] # split_on sep s
      else (case split_on sep s of [] \<Rightarrow> [[c]] | p # ps \<Rightarrow> (c # p) # ps))"

function split_spaces :: "string \<Rightarrow> string list" where
  \<comment> \<open>\<open>split(/\s+/)\<close>: a maximal run of white space is one separator; an empty piece
      can only be the first or the last\<close>
  "split_spaces [] = [[]]"
| "split_spaces (c # s) =
     (if is_space c then [] # split_spaces (dropWhile is_space s)
      else (case split_spaces s of [] \<Rightarrow> [[c]] | p # ps \<Rightarrow> (c # p) # ps))"
  by pat_completeness auto
termination
  by (relation "measure length") (auto intro: le_imp_less_Suc length_dropWhile_le)

definition to_lower :: "char \<Rightarrow> char" where
  \<comment> \<open>\<open>toLowerCase\<close> on one code unit up to 255: A to Z, and the Latin-1 capitals
      0xC0 to 0xDE except the multiplication sign 0xD7\<close>
  "to_lower c =
     (if (CHR ''A'' \<le> c \<and> c \<le> CHR ''Z'') \<or> (CHR 0xC0 \<le> c \<and> c \<le> CHR 0xDE \<and> c \<noteq> CHR 0xD7)
      then char_of (of_char c + (32::nat)) else c)"

definition toLowerCase :: "string \<Rightarrow> string" where
  "toLowerCase s = map to_lower s"


text \<open>
  A \<open>Set\<close> of strings keeps its members in the order of their first insertion;
  \<open>Array.from\<close> and the spread \<open>[...set]\<close> read them in that order.
\<close>

definition set_add :: "'a \<Rightarrow> 'a list \<Rightarrow> 'a list" where
  "set_add x s = (if x \<in> set s then s else s @ [x])"

definition new_Set :: "'a list \<Rightarrow> 'a list" where
  \<comment> \<open>\<open>new Set(xs)\<close>: the members of \<open>xs\<close> added one by one\<close>
  "new_Set xs = foldl (\<lambda>s x. set_add x s) [] xs"

section \<open>The protocol's data\<close>

datatype error_code = MethodNotFound | InvalidParams | InternalError

datatype mcp_error = McpError error_code string

record content_block =
  c_type :: string
  c_text :: string

record response =
  content :: "content_block list"
  isError :: "bool option"

definition text_response :: "string \<Rightarrow> response" where
  \<comment> \<open>\<open>{ content: [{ type: 'text', text: t }] }\<close>, with no \<open>isError\<close> field\<close>
  "text_response t = \<lparr>content = [\<lparr>c_type = ''text'', c_text = t\<rparr>], isError = None\<rparr>"

record request =
  name :: string
  arguments :: "(string \<rightharpoonup> string) option"

definition argument :: "request \<Rightarrow> string \<Rightarrow> string option" where
  \<comment> \<open>\<open>request.params.arguments?.key\<close>: undefined when there are no arguments or no such key\<close>
  "argument req key = (case arguments req of None \<Rightarrow> None | Some args \<Rightarrow> args key)"

section \<open>The first variant: shell commands and regular expressions\<close>

text \<open>
  \<open>execAsync\<close> runs a shell command: it is the outside world, taken as a parameter. It
  maps the command and the state of the world to the command's standard output or the
  error it is rejected with, and the world after it.
\<close>

type_synonym 'w exec = "string \<Rightarrow> 'w \<Rightarrow> (js_error + string) \<times> 'w"

definition REPO_URL :: string where
  "REPO_URL = ''https://github.com/kenjirou-ozi/rootz-project.git''"

definition LOCAL_PATH :: string where
  "LOCAL_PATH = ''./rootz-project''"

definition clone_command :: string where
  "clone_command = ''git clone '' @ REPO_URL @ '' '' @ LOCAL_PATH"

definition pull_command :: string where
  "pull_command = ''cd '' @ LOCAL_PATH @ '' && git pull origin main''"

definition cat_command :: "string \<Rightarrow> string" where
  \<open>cat_command path = ''cat "'' @ LOCAL_PATH @ ''/'' @ path @ ''"''\<close>

definition sync_ok :: response where
  "sync_ok = text_response ''Repository synced successfully with latest changes from GitHub''"

definition syncRepository :: "'w exec \<Rightarrow> 'w \<Rightarrow> (mcp_error + response) \<times> 'w" where
  "syncRepository execAsync w =
     (case execAsync clone_command w of
        (Inr out, w1) \<Rightarrow> (Inr sync_ok, w1)
      | (Inl clone_error, w1) \<Rightarrow>
          (case execAsync pull_command w1 of
             (Inr out, w2) \<Rightarrow> (Inr sync_ok, w2)
           | (Inl error, w2) \<Rightarrow>
               (Inl (McpError InternalError (''Failed to sync repository: '' @ toString error)), w2)))"

definition getFileContent1 :: "'w exec \<Rightarrow> string option \<Rightarrow> 'w \<Rightarrow> (mcp_error + response) \<times> 'w" where
  "getFileContent1 execAsync path w =
     (case path of
        None \<Rightarrow> (Inl (McpError InvalidParams ''Path is required''), w)
      | Some p \<Rightarrow>
          if p = [] then (Inl (McpError InvalidParams ''Path is required''), w)
          else
            (case execAsync (cat_command p) w of
               (Inl error, w1) \<Rightarrow>
                 (Inl (McpError InternalError (''Failed to read file '' @ p @ '': '' @ toString error)), w1)
             | (Inr stdout, w1) \<Rightarrow>
                 if length stdout > 45000
                 then (Inr (text_response
                         (''File content (truncated to 45KB):\<newline>\<newline>'' @ take 45000 stdout
                            @ ''\<newline>\<newline>[Content truncated due to size limit]'')), w1)
                 else (Inr (text_response (''File: '' @ p @ ''\<newline>\<newline>'' @ stdout)), w1)))"

subsection \<open>The three regular expressions\<close>

text \<open>
  \<open>classRegex = /class=["']([^"']+)["']/g\<close>, \<open>idRegex = /id=["']([^"']+)["']/g\<close> and
  \<open>tagRegex = /<(\w+)[^>]*>/g\<close>. Each is a literal, a greedy run that is captured, and a
  closing part. A character of the captured run can never stand for the part that
  follows it (a quote is not in \<open>[^"']\<close>, and what \<open>\w\<close> gives back \<open>[^>]*\<close> takes), so
  backtracking finds nothing that the longest run does not: a match at a position is the
  literal, the longest run (not empty), and the closing part right after it.
\<close>

datatype regex = classRegex | idRegex | tagRegex

definition is_quote :: "char \<Rightarrow> bool" where
  "is_quote c = (c = CHR 0x22 \<or> c = CHR 0x27)"

definition is_word :: "char \<Rightarrow> bool" where
  \<comment> \<open>the class \<open>\w\<close>\<close>
  "is_word c =
     ((CHR ''a'' \<le> c \<and> c \<le> CHR ''z'') \<or> (CHR ''A'' \<le> c \<and> c \<le> CHR ''Z'')
      \<or> (CHR ''0'' \<le> c \<and> c \<le> CHR ''9'') \<or> c = CHR ''_'')"

fun strip_prefix :: "string \<Rightarrow> string \<Rightarrow> string option" where
  "strip_prefix [] s = Some s"
| "strip_prefix (k # ks) [] = None"
| "strip_prefix (k # ks) (c # s) = (if k = c then strip_prefix ks s else None)"

definition quoted :: "string \<Rightarrow> (string \<times> string) option" where
  \<comment> \<open>\<open>["']([^"']+)["']\<close> at the head of \<open>s\<close>: the capture and what follows the match\<close>
  "quoted s =
     (case s of
        [] \<Rightarrow> None
      | q # r \<Rightarrow>
          if is_quote q then
            (let run = takeWhile (\<lambda>c. \<not> is_quote c) r in
             if run = [] then None
             else (case dropWhile (\<lambda>c. \<not> is_quote c) r of
                     [] \<Rightarrow> None
                   | q' # after \<Rightarrow> Some (run, after)))
          else None)"

definition tag_body :: "string \<Rightarrow> (string \<times> string) option" where
  \<comment> \<open>\<open>(\w+)[^>]*>\<close> at the head of \<open>s\<close>\<close>
  "tag_body s =
     (let run = takeWhile is_word s in
      if run = [] then None
      else (case dropWhile (\<lambda>c. c \<noteq> CHR ''>'') (dropWhile is_word s) of
              [] \<Rightarrow> None
            | gt # after \<Rightarrow> Some (run, after)))"

fun match_at :: "regex \<Rightarrow> string \<Rightarrow> (string \<times> string) option" where
  \<comment> \<open>the match that starts at the head of the text: group 1, and the text from
      \<open>lastIndex\<close> on\<close>
  "match_at classRegex s = (case strip_prefix ''class='' s of None \<Rightarrow> None | Some r \<Rightarrow> quoted r)"
| "match_at idRegex s = (case strip_prefix ''id='' s of None \<Rightarrow> None | Some r \<Rightarrow> quoted r)"
| "match_at tagRegex s = (case strip_prefix ''<'' s of None \<Rightarrow> None | Some r \<Rightarrow> tag_body r)"

lemma strip_prefix_length: "strip_prefix k s = Some r \<Longrightarrow> length r \<le> length s"
  by (induction k s rule: strip_prefix.induct) (auto split: if_splits)

lemma quoted_shorter: "quoted s = Some (g, after) \<Longrightarrow> length after < length s"
proof -
  assume m: "quoted s = Some (g, after)"
  then obtain q r where s: "s = q # r"
    by (cases s) (auto simp: quoted_def)
  from m s obtain q' where "dropWhile (\<lambda>c. \<not> is_quote c) r = q' # after"
    by (auto simp: quoted_def Let_def split: if_splits list.splits)
  then have "length (q' # after) \<le> length r"
    by (metis length_dropWhile_le)
  with s show ?thesis by simp
qed

lemma tag_body_shorter: "tag_body s = Some (g, after) \<Longrightarrow> length after < length s"
proof -
  assume m: "tag_body s = Some (g, after)"
  then obtain gt where d: "dropWhile (\<lambda>c. c \<noteq> CHR ''>'') (dropWhile is_word s) = gt # after"
    by (auto simp: tag_body_def Let_def split: if_splits list.splits)
  have "length (dropWhile (\<lambda>c. c \<noteq> CHR ''>'') (dropWhile is_word s)) \<le> length (dropWhile is_word s)"
    by (rule length_dropWhile_le)
  also have "\<dots> \<le> length s"
    by (rule length_dropWhile_le)
  finally show ?thesis using d by simp
qed

lemma match_at_shorter: "match_at re s = Some (g, after) \<Longrightarrow> length after < length s"
  by (cases re)
     (auto split: option.splits dest!: strip_prefix_length quoted_shorter tag_body_shorter)

function exec_all :: "regex \<Rightarrow> string \<Rightarrow> string list" where
  \<comment> \<open>\<open>while ((match = re.exec(stdout)) !== null)\<close>: the captures \<open>match[1]\<close> of the
      successive matches, each search starting where the last match ended\<close>
  "exec_all re [] = []"
| "exec_all re (c # s) =
     (case match_at re (c # s) of
        None \<Rightarrow> exec_all re s
      | Some (g, after) \<Rightarrow> g # exec_all re after)"
  by pat_completeness auto
termination
  by (relation "measure (\<lambda>(re, s). length s)") (auto dest: match_at_shorter)

subsection \<open>The analysis of a file's text\<close>

record regex_analysis =
  file1 :: string
  classes1 :: "string list"
  ids1 :: "string list"
  tags1 :: "string list"
  summary1 :: string

definition class_set :: "string \<Rightarrow> string list" where
  \<comment> \<open>the set \<open>classes\<close> after the first loop\<close>
  "class_set stdout =
     foldl (\<lambda>classes m. foldl (\<lambda>classes cls. set_add (trim cls) classes) classes
                            (split_on (\<lambda>c. c = CHR '' '') m))
       [] (exec_all classRegex stdout)"

definition id_set :: "string \<Rightarrow> string list" where
  "id_set stdout = foldl (\<lambda>ids m. set_add m ids) [] (exec_all idRegex stdout)"

definition tag_set :: "string \<Rightarrow> string list" where
  "tag_set stdout = foldl (\<lambda>tags m. set_add m tags) [] (exec_all tagRegex stdout)"

definition analysis1 :: "string \<Rightarrow> string \<Rightarrow> regex_analysis" where
  \<comment> \<open>the object \<open>analysis\<close> of \<open>analyzeHtmlStructure\<close>\<close>
  "analysis1 path stdout =
     \<lparr>file1 = path,
      classes1 = sort (class_set stdout),
      ids1 = sort (id_set stdout),
      tags1 = sort (tag_set stdout),
      summary1 =
        ''Found '' @ show_nat (length (class_set stdout)) @ '' CSS classes, ''
          @ show_nat (length (id_set stdout)) @ '' IDs, and ''
          @ show_nat (length (tag_set stdout)) @ '' different HTML tags''\<rparr>"

text \<open>\<open>JSON.stringify\<close> is a parameter: the claims are about the object it prints.\<close>

definition analyzeHtmlStructure1 ::
  "'w exec \<Rightarrow> (regex_analysis \<Rightarrow> string) \<Rightarrow> string option \<Rightarrow> 'w \<Rightarrow> (mcp_error + response) \<times> 'w" where
  "analyzeHtmlStructure1 execAsync stringify path w =
     (case path of
        None \<Rightarrow> (Inl (McpError InvalidParams ''Path is required''), w)
      | Some p \<Rightarrow>
          if p = [] then (Inl (McpError InvalidParams ''Path is required''), w)
          else
            (case execAsync (cat_command p) w of
               (Inl error, w1) \<Rightarrow>
                 (Inl (McpError InternalError (''Failed to analyze file '' @ p @ '': '' @ toString error)), w1)
             | (Inr stdout, w1) \<Rightarrow>
                 (Inr (text_response
                    (''HTML Structure Analysis for: '' @ p @ ''\<newline>\<newline>''
                       @ stringify (analysis1 p stdout))), w1)))"

definition callTool1 ::
  "'w exec \<Rightarrow> (regex_analysis \<Rightarrow> string) \<Rightarrow> request \<Rightarrow> 'w \<Rightarrow> (mcp_error + response) \<times> 'w" where
  \<comment> \<open>the handler of \<open>CallToolRequestSchema\<close>; \<open>Inl\<close> is the error it throws to the
      protocol layer\<close>
  "callTool1 execAsync stringify req w =
     (if name req = ''get_file_content'' then getFileContent1 execAsync (argument req ''path'') w
      else if name req = ''analyze_html_structure''
        then analyzeHtmlStructure1 execAsync stringify (argument req ''path'') w
      else if name req = ''sync_repository'' then syncRepository execAsync w
      else (Inl (McpError MethodNotFound (''Unknown tool: '' @ name req)), w))"

section \<open>The second variant: simple-git, fs, path and cheerio\<close>

subsection \<open>\<open>path.join\<close>\<close>

text \<open>
  Node's \<open>path.join\<close> (POSIX): every argument must be a string; the arguments that are
  not empty are joined with a slash and the result is normalised. Normalising drops
  empty segments and \<open>.\<close> segments; a \<open>..\<close> segment removes the segment before it, or
  is kept when there is none to remove and the path is relative.
\<close>

definition dotdot_step :: "bool \<Rightarrow> string list \<Rightarrow> string \<Rightarrow> string list" where
  \<comment> \<open>one segment of \<open>normalizeString\<close>; the segments kept so far are in reverse order\<close>
  "dotdot_step allowAboveRoot res seg =
     (if seg = [] \<or> seg = ''.'' then res
      else if seg = ''..'' then
        (case res of
           [] \<Rightarrow> if allowAboveRoot then [''..''] else []
         | l # ls \<Rightarrow> if l = ''..'' then (if allowAboveRoot then ''..'' # res else res) else ls)
      else seg # res)"

fun join_slash :: "string list \<Rightarrow> string" where
  "join_slash [] = []"
| "join_slash [x] = x"
| "join_slash (x # y # ys) = x @ ''/'' @ join_slash (y # ys)"

definition normalizeString :: "string \<Rightarrow> bool \<Rightarrow> string" where
  "normalizeString path allowAboveRoot =
     join_slash (rev (foldl (dotdot_step allowAboveRoot) [] (split_on (\<lambda>c. c = CHR ''/'') path)))"

definition normalize_path :: "string \<Rightarrow> string" where
  "normalize_path path =
     (if path = [] then ''.''
      else
        (let isAbsolute = (hd path = CHR ''/'');
             trailingSeparator = (last path = CHR ''/'');
             p = normalizeString path (\<not> isAbsolute)
         in if p = [] then (if isAbsolute then ''/'' else if trailingSeparator then ''./'' else ''.'')
            else (if isAbsolute then ''/'' else []) @ p @ (if trailingSeparator then ''/'' else [])))"

definition path_join :: "string \<Rightarrow> string option \<Rightarrow> js_error + string" where
  \<comment> \<open>\<open>path.join(a, b)\<close>, where \<open>b\<close> may be undefined\<close>
  \<open>path_join a b =
     (case b of
        None \<Rightarrow> Inl (TypeError ''The "path" argument must be of type string. Received undefined'')
      | Some b' \<Rightarrow>
          (let joined = (if a = [] then b' else if b' = [] then a else a @ ''/'' @ b')
           in if joined = [] then Inr ''.'' else Inr (normalize_path joined)))\<close>

subsection \<open>The service\<close>

text \<open>
  What cheerio hands to the callback of \<open>$('*').each\<close>: the elements of the document, in
  document order, each with its tag name and its attributes.
\<close>

record dom_element =
  tagName :: "string option"
  attribs :: "(string \<times> string) list"

definition attr :: "dom_element \<Rightarrow> string \<Rightarrow> string option" where
  "attr elem key = map_of (attribs elem) key"

record element_entry =
  e_tag :: string
  e_class :: "string option"
  e_id :: "string option"

record html_analysis =
  classes2 :: "string list"
  ids2 :: "string list"
  elements2 :: "element_entry list"

text \<open>
  The outside world of the service, as parameters: \<open>fs.rm\<close>, \<open>git.clone\<close>,
  \<open>simpleGit(dir).pull\<close> and \<open>fs.readFile\<close> act on the world \<open>'w\<close> and fulfil or
  reject; \<open>select_all content\<close> is \<open>cheerio.load(content)('*')\<close>; \<open>stringify\<close> is
  \<open>JSON.stringify\<close>.
\<close>

record 'w platform =
  rm :: "string \<Rightarrow> 'w \<Rightarrow> (js_error + unit) \<times> 'w"
  clone :: "string \<Rightarrow> string \<Rightarrow> 'w \<Rightarrow> (js_error + unit) \<times> 'w"
  pull :: "string \<Rightarrow> string \<Rightarrow> string \<Rightarrow> 'w \<Rightarrow> (js_error + unit) \<times> 'w"
  readFile :: "string \<Rightarrow> 'w \<Rightarrow> (js_error + string) \<times> 'w"
  select_all :: "string \<Rightarrow> dom_element list"
  stringify :: "html_analysis \<Rightarrow> string"

definition localPath :: string where
  "localPath = ''./rootz-sync''"

definition MAX_FILE_SIZE :: nat where
  "MAX_FILE_SIZE = 45000"

definition initializeSync :: "'w platform \<Rightarrow> 'w \<Rightarrow> (js_error + unit) \<times> 'w" where
  \<comment> \<open>the rejection of \<open>fs.rm\<close> is dropped by \<open>.catch(() => {})\<close>, that of the clone is
      caught and logged\<close>
  "initializeSync env w =
     (case rm env localPath w of
        (removed, w1) \<Rightarrow>
          (case clone env REPO_URL localPath w1 of
             (Inr done, w2) \<Rightarrow> (Inr (), w2)
           | (Inl error, w2) \<Rightarrow> (Inr (), w2)))"

definition pullLatest :: "'w platform \<Rightarrow> 'w \<Rightarrow> (js_error + unit) \<times> 'w" where
  "pullLatest env w =
     (case pull env localPath ''origin'' ''main'' w of
        (Inr done, w1) \<Rightarrow> (Inr (), w1)
      | (Inl error, w1) \<Rightarrow> (Inr (), w1))"

definition truncation_marker :: string where
  "truncation_marker = ''\<newline>\<newline>--- [File truncated] ---''"

definition getFileContent2 :: "'w platform \<Rightarrow> string option \<Rightarrow> 'w \<Rightarrow> (js_error + string) \<times> 'w" where
  "getFileContent2 env filePath w =
     (case pullLatest env w of
        (Inl error, w1) \<Rightarrow> (Inl error, w1)
      | (Inr pulled, w1) \<Rightarrow>
          (case path_join localPath filePath of
             Inl error \<Rightarrow> (Inl error, w1)
           | Inr fullPath \<Rightarrow>
               (case readFile env fullPath w1 of
                  (Inl error, w2) \<Rightarrow> (Inl error, w2)
                | (Inr contents, w2) \<Rightarrow>
                    if length contents > MAX_FILE_SIZE
                    then (Inr (take MAX_FILE_SIZE contents @ truncation_marker), w2)
                    else (Inr contents, w2))))"

definition each_element :: "html_analysis \<Rightarrow> dom_element \<Rightarrow> html_analysis" where
  \<comment> \<open>the callback of \<open>$('*').each\<close>, on the analysis as it stands\<close>
  "each_element analysis elem =
     (let tag = (case tagName elem of
                   None \<Rightarrow> ''unknown''
                 | Some t \<Rightarrow> if toLowerCase t = [] then ''unknown'' else toLowerCase t);
          classes = attr elem ''class'';
          a1 = (case classes of
                  None \<Rightarrow> analysis
                | Some c \<Rightarrow>
                    if c = [] then analysis
                    else analysis\<lparr>classes2 := classes2 analysis @ split_spaces c\<rparr>);
          ident = attr elem ''id'';
          a2 = (case ident of
                  None \<Rightarrow> a1
                | Some i \<Rightarrow> if i = [] then a1 else a1\<lparr>ids2 := ids2 a1 @ [i]\<rparr>)
      in a2\<lparr>elements2 := elements2 a2 @ [\<lparr>e_tag = tag, e_class = classes, e_id = ident\<rparr>]\<rparr>)"

definition analysis2 :: "dom_element list \<Rightarrow> html_analysis" where
  \<comment> \<open>the object \<open>analysis\<close> of \<open>analyzeHTML\<close>, from the elements cheerio selects\<close>
  "analysis2 elems =
     (let a = foldl each_element \<lparr>classes2 = [], ids2 = [], elements2 = []\<rparr> elems
      in a\<lparr>classes2 := new_Set (classes2 a), ids2 := new_Set (ids2 a)\<rparr>)"

definition analyzeHTML :: "'w platform \<Rightarrow> string option \<Rightarrow> 'w \<Rightarrow> (js_error + html_analysis) \<times> 'w" where
  "analyzeHTML env filePath w =
     (case getFileContent2 env filePath w of
        (Inl error, w1) \<Rightarrow> (Inl error, w1)
      | (Inr contents, w1) \<Rightarrow> (Inr (analysis2 (select_all env contents)), w1))"

definition template :: "string option \<Rightarrow> string" where
  \<comment> \<open>a value of \<open>args\<close> in a template literal\<close>
  "template v = (case v of None \<Rightarrow> ''undefined'' | Some x \<Rightarrow> x)"

definition callTool2_try :: "'w platform \<Rightarrow> request \<Rightarrow> 'w \<Rightarrow> (js_error + response) \<times> 'w" where
  \<comment> \<open>the \<open>try\<close> block of the handler; reading a property of \<open>args\<close> throws when the
      request has no arguments\<close>
  "callTool2_try env req w =
     (if name req = ''get_file_content'' then
        (case arguments req of
           None \<Rightarrow> (Inl (TypeError ''Cannot read properties of undefined (reading 'file_path')''), w)
         | Some args \<Rightarrow>
             (case getFileContent2 env (args ''file_path'') w of
                (Inl error, w1) \<Rightarrow> (Inl error, w1)
              | (Inr contents, w1) \<Rightarrow>
                  (Inr (text_response
                     (''File: '' @ template (args ''file_path'') @ ''\<newline>\<newline>'' @ contents)), w1)))
      else if name req = ''analyze_html_structure'' then
        (case arguments req of
           None \<Rightarrow> (Inl (TypeError ''Cannot read properties of undefined (reading 'html_file')''), w)
         | Some args \<Rightarrow>
             (case analyzeHTML env (args ''html_file'') w of
                (Inl error, w1) \<Rightarrow> (Inl error, w1)
              | (Inr analysis, w1) \<Rightarrow>
                  (Inr (text_response
                     (''HTML Analysis for: '' @ template (args ''html_file'') @ ''\<newline>\<newline>''
                        @ stringify env analysis)), w1)))
      else (Inl (Error (''Unknown tool: '' @ name req)), w))"

definition error_response :: "js_error \<Rightarrow> response" where
  \<comment> \<open>the \<open>catch\<close> block: \<open>error?.message || 'Unknown error'\<close>\<close>
  "error_response error =
     \<lparr>content = [\<lparr>c_type = ''text'',
                   c_text = ''Error: '' @ (if message error = [] then ''Unknown error'' else message error)\<rparr>],
      isError = Some True\<rparr>"

definition callTool2 :: "'w platform \<Rightarrow> request \<Rightarrow> 'w \<Rightarrow> (js_error + response) \<times> 'w" where
  "callTool2 env req w =
     (case callTool2_try env req w of
        (Inr result, w1) \<Rightarrow> (Inr result, w1)
      | (Inl error, w1) \<Rightarrow> (Inr (error_response error), w1))"

section \<open>A world to run the server in\<close>

text \<open>
  The theorems below hold for every outside world. To run the two variants on concrete
  inputs, here is one: a disk of files by path, the files of branch \<open>main\<close> at the
  remote, whether the remote can be reached, and a journal of the operations attempted.
  A directory is there when a file is under it. A clone refuses a directory that is
  there and needs the remote; a pull needs the directory and the remote, and leaves the
  directory with the remote's files. It is a world for examples only, much simpler than
  git, a shell and a file system are: no theorem is stated of it, and every example
  that runs in it uses only what the operation it stands for does in that situation.
\<close>

record world =
  disk :: "(string \<times> string) list"
  remote :: "(string \<times> string) list"
  online :: bool
  journal :: "string list"

definition under_dir :: "string \<Rightarrow> string \<Rightarrow> bool" where
  "under_dir dir p = (take (Suc (length dir)) p = dir @ ''/'')"

definition inside_root :: "string \<Rightarrow> bool" where
  \<comment> \<open>a resolved path is the mirror's root or lies under it\<close>
  "inside_root r = (r = normalize_path localPath \<or> under_dir (normalize_path localPath) r)"

definition tree :: "string \<Rightarrow> world \<Rightarrow> (string \<times> string) list" where
  \<comment> \<open>the files under a directory\<close>
  "tree dir w = filter (\<lambda>(p, c). under_dir (normalize_path dir) p) (disk w)"

definition others :: "string \<Rightarrow> world \<Rightarrow> (string \<times> string) list" where
  "others dir w = filter (\<lambda>(p, c). \<not> under_dir (normalize_path dir) p) (disk w)"

definition checkout :: "string \<Rightarrow> world \<Rightarrow> (string \<times> string) list" where
  \<comment> \<open>the remote's files, placed under a directory\<close>
  "checkout dir w = map (\<lambda>(p, c). (normalize_path dir @ ''/'' @ p, c)) (remote w)"

definition attempt :: "string \<Rightarrow> world \<Rightarrow> world" where
  "attempt operation w = w\<lparr>journal := journal w @ [operation]\<rparr>"

definition world_rm :: "string \<Rightarrow> world \<Rightarrow> (js_error + unit) \<times> world" where
  "world_rm dir w = (Inr (), (attempt (''rm '' @ dir) w)\<lparr>disk := others dir w\<rparr>)"

definition world_clone :: "string \<Rightarrow> string \<Rightarrow> world \<Rightarrow> (js_error + unit) \<times> world" where
  "world_clone url dir w =
     (if tree dir w \<noteq> [] then
        (Inl (Error (''fatal: destination path already exists and is not an empty directory: '' @ dir)),
         attempt (''clone '' @ dir) w)
      else if \<not> online w then
        (Inl (Error (''fatal: unable to access '' @ url)), attempt (''clone '' @ dir) w)
      else (Inr (), (attempt (''clone '' @ dir) w)\<lparr>disk := disk w @ checkout dir w\<rparr>))"

definition world_pull :: "string \<Rightarrow> string \<Rightarrow> string \<Rightarrow> world \<Rightarrow> (js_error + unit) \<times> world" where
  "world_pull dir origin branch w =
     (if tree dir w = [] then
        (Inl (Error (''No such directory: '' @ dir)),
         attempt (''pull '' @ dir) w)
      else if \<not> online w then
        (Inl (Error (''fatal: unable to access '' @ origin)), attempt (''pull '' @ dir) w)
      else (Inr (), (attempt (''pull '' @ dir) w)\<lparr>disk := others dir w @ checkout dir w\<rparr>))"

definition world_readFile :: "string \<Rightarrow> world \<Rightarrow> (js_error + string) \<times> world" where
  "world_readFile path w =
     (case map_of (disk w) path of
        Some c \<Rightarrow> (Inr c, attempt (''readFile '' @ path) w)
      | None \<Rightarrow>
          if tree path w \<noteq> []
          then (Inl (Error ''EISDIR: illegal operation on a directory, read''),
                attempt (''readFile '' @ path) w)
          else (Inl (Error (''ENOENT: no such file or directory, open '' @ path)),
                attempt (''readFile '' @ path) w))"

definition node :: "(string \<Rightarrow> dom_element list) \<Rightarrow> (html_analysis \<Rightarrow> string) \<Rightarrow> world platform" where
  \<comment> \<open>the platform of the second variant on this world, around a parser and a printer\<close>
  "node parser printer =
     \<lparr>rm = world_rm, clone = world_clone, pull = world_pull, readFile = world_readFile,
      select_all = parser, stringify = printer\<rparr>"

definition shell :: "world exec" where
  \<comment> \<open>the shell of the first variant on this world: the two git commands and \<open>cat\<close> of a
      quoted path; it expands nothing inside the quotes and puts no limit on the size of
      the output\<close>
  \<open>shell command w =
     (if command = clone_command then
        (case world_clone REPO_URL LOCAL_PATH w of
           (Inl error, w1) \<Rightarrow> (Inl error, w1)
         | (Inr done, w1) \<Rightarrow> (Inr [], w1))
      else if command = pull_command then
        (case world_pull LOCAL_PATH ''origin'' ''main'' w of
           (Inl error, w1) \<Rightarrow> (Inl error, w1)
         | (Inr done, w1) \<Rightarrow> (Inr ''Already up to date.'', w1))
      else
        (case strip_prefix ''cat "'' command of
           None \<Rightarrow> (Inl (Error (''Command failed: '' @ command)), attempt command w)
         | Some quoted_path \<Rightarrow>
             (case world_readFile (normalize_path (butlast quoted_path)) w of
                (Inl error, w1) \<Rightarrow> (Inl (Error (''Command failed: '' @ command)), w1)
              | (Inr text, w1) \<Rightarrow> (Inr text, w1))))\<close>

text \<open>
  A world for the examples: the remote cannot be reached, so that a pull changes nothing;
  both mirrors hold a file of 45013 characters; a file lies beside the mirrors.
\<close>

definition big_file :: string where
  \<open>big_file = replicate 45000 CHR ''a'' @ ''<p id="late">''\<close>

definition offline_world :: world where
  "offline_world =
     \<lparr>disk = [(''rootz-sync/big.html'', big_file), (''rootz-project/big.html'', big_file),
              (''rootz-sync/index.html'', ''<p>hello</p>''), (''secret.txt'', ''top secret'')],
      remote = [], online = False, journal = []\<rparr>"

definition online_world :: world where
  \<comment> \<open>both mirrors are there, one commit behind the remote, which can be reached\<close>
  "online_world =
     \<lparr>disk = [(''rootz-project/index.html'', ''<p>old</p>''), (''rootz-sync/index.html'', ''<p>old</p>'')],
      remote = [(''index.html'', ''<p>new</p>'')], online = True, journal = []\<rparr>"

definition checkout_failed :: "string list exec" where
  \<comment> \<open>a shell in which the clone fetches the repository and fails to check it out,
      leaving the directory behind, and the pull finds it up to date; its world is the
      list of the commands run\<close>
  "checkout_failed command w =
     (if command = clone_command
      then (Inl (Error ''Command failed: git clone: fatal: unable to checkout working tree''),
            w @ [command])
      else (Inr ''Already up to date.'', w @ [command]))"

definition tag_parser :: "string \<Rightarrow> dom_element list" where
  \<comment> \<open>a parser for the examples: the elements are the tags \<open>tagRegex\<close> finds, without
      attributes\<close>
  "tag_parser s = map (\<lambda>t. \<lparr>tagName = Some t, attribs = []\<rparr>) (exec_all tagRegex s)"

definition other_big_file :: string where
  \<open>other_big_file = replicate 45000 CHR ''a'' @ ''<div class="late"></div>''\<close>

definition other_world :: world where
  "other_world =
     \<lparr>disk = [(''rootz-sync/big.html'', other_big_file)], remote = [], online = False, journal = []\<rparr>"

definition beside_world :: world where
  \<comment> \<open>a long file beside the mirrors\<close>
  "beside_world = \<lparr>disk = [(''big.txt'', big_file)], remote = [], online = False, journal = []\<rparr>"

definition no_parser :: "string \<Rightarrow> dom_element list" where
  "no_parser s = []"

definition no_printer :: "html_analysis \<Rightarrow> string" where
  "no_printer a = []"

definition no_printer1 :: "regex_analysis \<Rightarrow> string" where
  "no_printer1 a = []"

definition example_html :: string where
  \<comment> \<open>the example of the specification\<close>
  \<open>example_html = ''<div class="a b" id="x"><span class="b"></span></div>''\<close>

lemmas world_defs = node_def shell_def world_rm_def world_clone_def world_pull_def
  world_readFile_def tree_def others_def checkout_def attempt_def under_dir_def

lemmas path_defs = path_join_def normalize_path_def normalizeString_def dotdot_step_def localPath_def
  LOCAL_PATH_def

lemmas command_defs = cat_command_def clone_command_def pull_command_def REPO_URL_def

section \<open>Reading a file: the size limit\<close>

lemma pullLatest_returns: "pullLatest env w = (Inr (), snd (pullLatest env w))"
  by (simp add: pullLatest_def split: prod.splits sum.splits)

lemma length_truncation_marker: "length truncation_marker = 26"
  by (simp add: truncation_marker_def)

text \<open>
  C1, as the specification states it: the content returned for a file of more than 45000
  characters is exactly its first 45000 characters, and no returned content is longer
  than 45000. In the second variant the file of 45013 characters comes back as its first
  45000 characters followed by the marker: 45026 characters.
\<close>

theorem C1_counterexample:
  "fst (getFileContent2 (node no_parser no_printer) (Some ''big.html'') offline_world)
     = Inr (replicate 45000 CHR ''a'' @ truncation_marker)
   \<and> length (replicate 45000 CHR ''a'' @ truncation_marker) = 45026"
  by (simp add: getFileContent2_def pullLatest_def world_defs path_defs offline_world_def
        MAX_FILE_SIZE_def big_file_def truncation_marker_def)

text \<open>
  C1, amended: whenever the read of the file delivers a content \<open>c\<close> to the operation
  (\<open>fs.readFile\<close> fulfils with \<open>c\<close> in the second variant, \<open>cat\<close> run through \<open>exec\<close>
  prints \<open>c\<close> in the first) and \<open>c\<close> is longer than 45000 characters, the second variant
  returns the first 45000 characters of \<open>c\<close> followed by the marker
  \<open>--- [File truncated] ---\<close> (after two line feeds), and the first variant returns them
  between the heading \<open>File content (truncated to 45KB):\<close> and the trailer
  \<open>[Content truncated due to size limit]\<close>; when \<open>c\<close> is not longer than 45000 it is
  returned whole (after \<open>File: path\<close> in the first variant). Neither variant has a
  \<open>truncated\<close> flag: the marker is the only sign. What the second variant returns starts
  with the first 45000 characters of \<open>c\<close> and is never longer than 45026. Nothing is
  said of a file whose read delivers no content, whatever its size.
\<close>

theorem getFileContent_truncation:
  fixes env :: "'w platform" and execAsync :: "'v exec"
  assumes "path_join localPath (Some p) = Inr fullPath"
    and "readFile env fullPath (snd (pullLatest env w)) = (Inr c, w')"
    and "q \<noteq> []" and "execAsync (cat_command q) v = (Inr c, v')"
  shows "(\<exists>r. fst (getFileContent2 env (Some p) w) = Inr r
            \<and> r = (if length c > 45000 then take 45000 c @ truncation_marker else c)
            \<and> take 45000 r = take 45000 c \<and> length r \<le> 45026)
       \<and> fst (getFileContent1 execAsync (Some q) v)
           = Inr (text_response
               (if length c > 45000
                then ''File content (truncated to 45KB):\<newline>\<newline>'' @ take 45000 c
                       @ ''\<newline>\<newline>[Content truncated due to size limit]''
                else ''File: '' @ q @ ''\<newline>\<newline>'' @ c))"
proof -
  have "fst (getFileContent2 env (Some p) w)
          = Inr (if length c > 45000 then take 45000 c @ truncation_marker else c)"
    using assms(1,2)
    by (subst getFileContent2_def, subst pullLatest_returns) (simp add: MAX_FILE_SIZE_def)
  then have v2: "\<exists>r. fst (getFileContent2 env (Some p) w) = Inr r
            \<and> r = (if length c > 45000 then take 45000 c @ truncation_marker else c)
            \<and> take 45000 r = take 45000 c \<and> length r \<le> 45026"
    by (simp add: length_truncation_marker)
  have v1: "fst (getFileContent1 execAsync (Some q) v)
           = Inr (text_response
               (if length c > 45000
                then ''File content (truncated to 45KB):\<newline>\<newline>'' @ take 45000 c
                       @ ''\<newline>\<newline>[Content truncated due to size limit]''
                else ''File: '' @ q @ ''\<newline>\<newline>'' @ c))"
    using assms(3,4) by (simp add: getFileContent1_def)
  from v2 v1 show ?thesis by blast
qed

theorem getFileContent_truncation_witness:
  "fst (getFileContent2 (node no_parser no_printer) (Some ''big.html'') offline_world)
     = Inr (take 45000 big_file @ truncation_marker)
   \<and> fst (getFileContent1 shell (Some ''big.html'') offline_world)
       = Inr (text_response (''File content (truncated to 45KB):\<newline>\<newline>'' @ take 45000 big_file
                       @ ''\<newline>\<newline>[Content truncated due to size limit]''))"
proof -
  have a: "path_join localPath (Some ''big.html'') = Inr ''rootz-sync/big.html''"
    by (simp add: path_defs)
  have b: "readFile (node no_parser no_printer) ''rootz-sync/big.html''
             (snd (pullLatest (node no_parser no_printer) offline_world))
           = (Inr big_file, (attempt ''readFile rootz-sync/big.html''
                 (snd (pullLatest (node no_parser no_printer) offline_world))))"
    by (simp add: pullLatest_def world_defs path_defs offline_world_def)
  have c: "''big.html'' \<noteq> []" by simp
  have d: "shell (cat_command ''big.html'') offline_world
            = (Inr big_file, attempt ''readFile rootz-project/big.html'' offline_world)"
    by (simp add: command_defs world_defs path_defs offline_world_def)
  have l: "length big_file > 45000" by (simp add: big_file_def)
  show ?thesis
    using getFileContent_truncation [where env = "node no_parser no_printer" and execAsync = shell,
        OF a b c d] l by simp
qed

section \<open>The collections of an analysis\<close>

lemma distinct_set_add: "distinct s \<Longrightarrow> distinct (set_add x s)"
  by (simp add: set_add_def)

lemma distinct_add_all: "distinct s \<Longrightarrow> distinct (foldl (\<lambda>s x. set_add (f x) s) s xs)"
  by (induction xs arbitrary: s) (simp_all add: distinct_set_add)

lemma distinct_new_Set: "distinct (new_Set xs)"
  unfolding new_Set_def using distinct_add_all [of "[]" "\<lambda>x. x" xs] by simp

lemma distinct_add_pieces:
  "distinct s \<Longrightarrow>
   distinct (foldl (\<lambda>classes m. foldl (\<lambda>classes cls. set_add (f cls) classes) classes (g m)) s ms)"
  by (induction ms arbitrary: s) (simp_all add: distinct_add_all)

lemma distinct_class_set: "distinct (class_set stdout)"
  unfolding class_set_def by (rule distinct_add_pieces) simp

lemma distinct_id_set: "distinct (id_set stdout)"
  unfolding id_set_def using distinct_add_all [of "[]" "\<lambda>x. x"] by simp

lemma distinct_tag_set: "distinct (tag_set stdout)"
  unfolding tag_set_def using distinct_add_all [of "[]" "\<lambda>x. x"] by simp

text \<open>
  C2, as the specification states it: classes, ids and tags are each free of duplicates
  and sorted. The second variant only removes duplicates, through a \<open>Set\<close>: for a single
  element with \<open>class="b a"\<close> its classes are \<open>b\<close>, \<open>a\<close>, in the order of the markup.
\<close>

theorem C2_counterexample:
  "classes2 (analysis2 [\<lparr>tagName = Some ''div'', attribs = [(''class'', ''b a'')]\<rparr>]) = [''b'', ''a'']
   \<and> \<not> sorted [''b'', ''a'']"
  by (simp add: analysis2_def each_element_def attr_def new_Set_def set_add_def is_space_def
        toLowerCase_def to_lower_def Let_def)

text \<open>
  C2, amended: in the first variant each of classes, ids and tags contains no duplicate
  entries and is sorted in ascending lexicographic order, for every text analysed; in
  the second variant classes and ids contain no duplicate entries (they are not sorted,
  and that variant has no tags collection).
\<close>

theorem analysis_collections:
  "distinct (classes1 (analysis1 path stdout)) \<and> sorted (classes1 (analysis1 path stdout))
   \<and> distinct (ids1 (analysis1 path stdout)) \<and> sorted (ids1 (analysis1 path stdout))
   \<and> distinct (tags1 (analysis1 path stdout)) \<and> sorted (tags1 (analysis1 path stdout))
   \<and> distinct (classes2 (analysis2 elems)) \<and> distinct (ids2 (analysis2 elems))"
  by (simp add: analysis1_def analysis2_def Let_def distinct_class_set distinct_id_set
        distinct_tag_set distinct_new_Set)

lemma example_analysis1:
  "analysis1 ''x.html'' example_html =
     \<lparr>file1 = ''x.html'', classes1 = [''a'', ''b''], ids1 = [''x''], tags1 = [''div'', ''span''],
      summary1 = ''Found 2 CSS classes, 1 IDs, and 2 different HTML tags''\<rparr>"
  by code_simp

theorem analysis_collections_witness:
  "classes1 (analysis1 ''x.html'' example_html) = [''a'', ''b'']
   \<and> sorted (classes1 (analysis1 ''x.html'' example_html))
   \<and> distinct (classes1 (analysis1 ''x.html'' example_html))
   \<and> tags1 (analysis1 ''x.html'' example_html) = [''div'', ''span'']"
  using analysis_collections [of "''x.html''" example_html "[]"]
  by (simp add: example_analysis1)

section \<open>The case of tag names\<close>


























section \<open>Failures of a tool call\<close>

text \<open>
  C3, as the specification states it: a handler's failure never leaves \<open>callTool\<close> as a
  fault. In the first variant the handler rethrows the failure of \<open>cat\<close> as an
  \<open>McpError\<close>, and the request handler passes it on: reading a path that does not exist
  throws.
\<close>

theorem C3_counterexample:
  \<open>fst (callTool1 shell no_printer1
          \<lparr>name = ''get_file_content'', arguments = Some [''path'' \<mapsto> ''missing.html'']\<rparr>
          offline_world)
     = Inl (McpError InternalError
         ''Failed to read file missing.html: Error: Command failed: cat "./rootz-project/missing.html"'')\<close>
  by (simp add: callTool1_def getFileContent1_def argument_def toString_def command_defs
        world_defs path_defs offline_world_def)

lemma callTool2_returns: "\<exists>r. fst (callTool2 env req w) = Inr r"
  by (simp add: callTool2_def split: prod.splits sum.splits)

lemma error_response_text:
  "isError (error_response e) = Some True
   \<and> (\<exists>t. content (error_response e) = [\<lparr>c_type = ''text'', c_text = ''Error: '' @ t\<rparr>] \<and> t \<noteq> [])"
  by (simp add: error_response_def)

text \<open>
  C3, amended: in the second variant \<open>callTool\<close> always returns a response, and when the
  file-content or the analysis handler fails with an error, the response is a single
  text block \<open>Error: \<close> followed by a message that is not empty, with \<open>isError = true\<close>;
  in the first variant the failure of the read is thrown out of \<open>callTool\<close> as an
  \<open>McpError\<close> with the code \<open>InternalError\<close>.
\<close>

theorem callTool_failures:
  "(\<exists>r. fst (callTool2 env req w) = Inr r)
   \<and> (fst (getFileContent2 env (args ''file_path'') w) = Inl e \<longrightarrow>
        fst (callTool2 env \<lparr>name = ''get_file_content'', arguments = Some args\<rparr> w)
          = Inr (error_response e))
   \<and> (fst (analyzeHTML env (args ''html_file'') w) = Inl e \<longrightarrow>
        fst (callTool2 env \<lparr>name = ''analyze_html_structure'', arguments = Some args\<rparr> w)
          = Inr (error_response e))
   \<and> isError (error_response e) = Some True
   \<and> (\<exists>t. content (error_response e) = [\<lparr>c_type = ''text'', c_text = ''Error: '' @ t\<rparr>] \<and> t \<noteq> [])
   \<and> (p \<noteq> [] \<and> fst (execAsync (cat_command p) v) = Inl err \<longrightarrow>
        fst (callTool1 execAsync printer \<lparr>name = ''get_file_content'', arguments = Some [''path'' \<mapsto> p]\<rparr> v)
          = Inl (McpError InternalError (''Failed to read file '' @ p @ '': '' @ toString err))
        \<and> fst (callTool1 execAsync printer \<lparr>name = ''analyze_html_structure'', arguments = Some [''path'' \<mapsto> p]\<rparr> v)
          = Inl (McpError InternalError (''Failed to analyze file '' @ p @ '': '' @ toString err)))"
proof -
  have a: "fst (callTool2 env \<lparr>name = ''get_file_content'', arguments = Some args\<rparr> w)
          = Inr (error_response e)" if "fst (getFileContent2 env (args ''file_path'') w) = Inl e"
    using that by (auto simp: callTool2_def callTool2_try_def split: prod.splits sum.splits)
  have b: "fst (callTool2 env \<lparr>name = ''analyze_html_structure'', arguments = Some args\<rparr> w)
          = Inr (error_response e)" if "fst (analyzeHTML env (args ''html_file'') w) = Inl e"
    using that by (auto simp: callTool2_def callTool2_try_def split: prod.splits sum.splits)
  have c: "fst (callTool1 execAsync printer \<lparr>name = ''get_file_content'', arguments = Some [''path'' \<mapsto> p]\<rparr> v)
          = Inl (McpError InternalError (''Failed to read file '' @ p @ '': '' @ toString err))
        \<and> fst (callTool1 execAsync printer \<lparr>name = ''analyze_html_structure'', arguments = Some [''path'' \<mapsto> p]\<rparr> v)
          = Inl (McpError InternalError (''Failed to analyze file '' @ p @ '': '' @ toString err))"
    if "p \<noteq> []" and "fst (execAsync (cat_command p) v) = Inl err"
    using that
    by (auto simp: callTool1_def getFileContent1_def analyzeHtmlStructure1_def argument_def
          split: prod.splits sum.splits)
  from a b c callTool2_returns [of env req w] error_response_text [of e] show ?thesis
    by blast
qed

theorem callTool_failures_witness:
  \<open>fst (callTool2 (node no_parser no_printer)
          \<lparr>name = ''get_file_content'',
           arguments = Some [''file_path'' \<mapsto> ''missing.html'', ''html_file'' \<mapsto> ''missing.html'']\<rparr>
          offline_world)
     = Inr \<lparr>content = [\<lparr>c_type = ''text'',
                         c_text = ''Error: ENOENT: no such file or directory, open rootz-sync/missing.html''\<rparr>],
            isError = Some True\<rparr>
   \<and> fst (callTool2 (node no_parser no_printer)
          \<lparr>name = ''analyze_html_structure'',
           arguments = Some [''file_path'' \<mapsto> ''missing.html'', ''html_file'' \<mapsto> ''missing.html'']\<rparr>
          offline_world)
     = Inr \<lparr>content = [\<lparr>c_type = ''text'',
                         c_text = ''Error: ENOENT: no such file or directory, open rootz-sync/missing.html''\<rparr>],
            isError = Some True\<rparr>
   \<and> fst (callTool1 shell no_printer1
          \<lparr>name = ''analyze_html_structure'', arguments = Some [''path'' \<mapsto> ''missing.html'']\<rparr>
          offline_world)
     = Inl (McpError InternalError
         ''Failed to analyze file missing.html: Error: Command failed: cat "./rootz-project/missing.html"'')\<close>
proof -
  let ?args = "[''file_path'' \<mapsto> ''missing.html'', ''html_file'' \<mapsto> ''missing.html'']"
  let ?e = "Error ''ENOENT: no such file or directory, open rootz-sync/missing.html''"
  have g: "fst (getFileContent2 (node no_parser no_printer) (?args ''file_path'') offline_world) = Inl ?e"
    by (simp add: getFileContent2_def pullLatest_def world_defs path_defs offline_world_def)
  have h: "fst (analyzeHTML (node no_parser no_printer) (?args ''html_file'') offline_world) = Inl ?e"
    by (simp add: analyzeHTML_def getFileContent2_def pullLatest_def world_defs path_defs
          offline_world_def)
  have x: \<open>''missing.html'' \<noteq> []
           \<and> fst (shell (cat_command ''missing.html'') offline_world)
               = Inl (Error ''Command failed: cat "./rootz-project/missing.html"'')\<close>
    by (simp add: command_defs world_defs path_defs offline_world_def)
  show ?thesis
    using callTool_failures [where env = "node no_parser no_printer" and w = offline_world
        and args = ?args and e = ?e
        and req = "\<lparr>name = ''get_file_content'', arguments = None\<rparr>" and p = "''missing.html''"
        and execAsync = shell and v = offline_world
        and err = \<open>Error ''Command failed: cat "./rootz-project/missing.html"''\<close>
        and printer = no_printer1] g h x
    by (simp add: error_response_def toString_def)
qed

section \<open>The path that is read\<close>

text \<open>
  C4, as the specification states it: a path that resolves outside the mirror's root is
  rejected or neutralised. \<open>path.join\<close> resolves \<open>../secret.txt\<close> to \<open>secret.txt\<close>, beside
  the mirror, and the file is read and returned.
\<close>

theorem C4_counterexample:
  "path_join localPath (Some ''../secret.txt'') = Inr ''secret.txt''
   \<and> \<not> inside_root ''secret.txt''
   \<and> fst (getFileContent2 (node no_parser no_printer) (Some ''../secret.txt'') offline_world)
       = Inr ''top secret''"
  by (simp add: getFileContent2_def pullLatest_def world_defs path_defs offline_world_def
        MAX_FILE_SIZE_def inside_root_def)

lemma root_resolved: "normalize_path localPath = ''rootz-sync''"
  by (simp add: path_defs)

lemma split_on_plain: "\<forall>c \<in> set n. \<not> sep c \<Longrightarrow> split_on sep n = [n]"
  by (induction n) simp_all

lemma join_beside:
  assumes "n \<noteq> []" and "CHR ''/'' \<notin> set n" and "n \<noteq> ''.''" and "n \<noteq> ''..''"
  shows "path_join localPath (Some (''../'' @ n)) = Inr n"
proof -
  have s: "split_on (\<lambda>c. c = CHR ''/'') n = [n]"
    using assms(2) by (intro split_on_plain) auto
  have l: "last n \<noteq> CHR ''/''"
    using assms(1,2) last_in_set by metis
  show ?thesis
    using assms(1,3,4) l by (simp add: path_defs s)
qed

lemma plain_outside:
  assumes "CHR ''/'' \<notin> set n" and "n \<noteq> ''rootz-sync''"
  shows "\<not> inside_root n"
proof
  assume "inside_root n"
  with assms(2) have "under_dir ''rootz-sync'' n"
    by (simp add: inside_root_def root_resolved)
  then have "take (Suc (length ''rootz-sync'')) n = ''rootz-sync'' @ ''/''"
    unfolding under_dir_def .
  then have "set (''rootz-sync'' @ ''/'') \<subseteq> set n"
    by (metis set_take_subset)
  then show False
    using assms(1) by simp
qed

lemma under_dir_append: "under_dir d r \<Longrightarrow> under_dir d (r @ t)"
proof -
  assume u: "under_dir d r"
  then have "length (take (Suc (length d)) r) = Suc (length d)"
    by (simp add: under_dir_def)
  then have "Suc (length d) \<le> length r"
    by simp
  with u show ?thesis
    by (simp add: under_dir_def)
qed

lemma no_dotdot_fold:
  "''..'' \<notin> set segs \<Longrightarrow>
   foldl (dotdot_step a) res segs = rev (filter (\<lambda>s. s \<noteq> [] \<and> s \<noteq> ''.'') segs) @ res"
  by (induction segs arbitrary: res) (auto simp: dotdot_step_def)

lemma join_slash_under: "inside_root (join_slash (''rootz-sync'' # segs))"
proof (cases segs)
  case Nil
  then show ?thesis by (simp add: inside_root_def root_resolved)
next
  case (Cons y ys)
  then show ?thesis by (simp add: inside_root_def root_resolved under_dir_def)
qed

lemma join_slash_not_empty: "join_slash (''rootz-sync'' # segs) \<noteq> []"
  by (cases segs) simp_all

lemma inside_root_slash: "inside_root r \<Longrightarrow> inside_root (r @ ''/'')"
  by (auto simp: inside_root_def root_resolved under_dir_append) (simp add: under_dir_def)

lemma no_dotdot_inside:
  assumes "''..'' \<notin> set (split_on (\<lambda>c. c = CHR ''/'') p)"
  shows "\<exists>r. path_join localPath (Some p) = Inr r \<and> inside_root r"
proof (cases "p = []")
  case True
  then show ?thesis
    by (simp add: path_defs inside_root_def)
next
  case False
  let ?segs = "filter (\<lambda>s. s \<noteq> [] \<and> s \<noteq> ''.'') (split_on (\<lambda>c. c = CHR ''/'') p)"
  have n: "normalizeString (''./rootz-sync/'' @ p) True = join_slash (''rootz-sync'' # ?segs)"
    using assms by (simp add: normalizeString_def no_dotdot_fold dotdot_step_def)
  have "path_join localPath (Some p)
          = Inr (join_slash (''rootz-sync'' # ?segs) @ (if last p = CHR ''/'' then ''/'' else []))"
    using False n join_slash_not_empty [of ?segs]
    by (simp add: path_join_def localPath_def normalize_path_def Let_def)
  moreover have "inside_root (join_slash (''rootz-sync'' # ?segs) @ (if last p = CHR ''/'' then ''/'' else []))"
    using join_slash_under [of ?segs] by (simp add: inside_root_slash)
  ultimately show ?thesis by simp
qed

text \<open>
  C4, amended. Neither variant checks where the path leads. The second variant joins the
  path to the mirror's root with \<open>path.join\<close> and reads the result: a path with no \<open>..\<close>
  segment resolves to the root or under it (an absolute path is neutralised in this way),
  but for every plain file name \<open>n\<close> other than the root's (not empty, without a slash,
  neither \<open>.\<close> nor \<open>..\<close>) the path \<open>../n\<close> resolves to \<open>n\<close>, outside the root; and whatever
  the path, when the file it resolves to is read, its content is returned, cut after
  45000 characters with the marker like any other. The first variant pastes the path as
  it is into the command \<open>cat "./rootz-project/path"\<close> and returns what the command
  prints, cut likewise.
\<close>

theorem getFileContent_unguarded:
  \<open>(''..'' \<notin> set (split_on (\<lambda>c. c = CHR ''/'') p) \<longrightarrow>
      (\<exists>r. path_join localPath (Some p) = Inr r \<and> inside_root r))
   \<and> (n \<noteq> [] \<and> CHR ''/'' \<notin> set n \<and> n \<noteq> ''.'' \<and> n \<noteq> ''..'' \<and> n \<noteq> ''rootz-sync'' \<longrightarrow>
        path_join localPath (Some (''../'' @ n)) = Inr n \<and> \<not> inside_root n)
   \<and> (path_join localPath (Some p) = Inr fullPath
        \<and> readFile env fullPath (snd (pullLatest env w)) = (Inr c, w') \<longrightarrow>
        getFileContent2 env (Some p) w
          = (Inr (if length c > 45000 then take 45000 c @ truncation_marker else c), w'))
   \<and> (q \<noteq> [] \<and> execAsync (''cat "./rootz-project/'' @ q @ ''"'') v = (Inr out, v') \<longrightarrow>
        getFileContent1 execAsync (Some q) v
          = (Inr (text_response
                    (if length out > 45000
                     then ''File content (truncated to 45KB):\<newline>\<newline>'' @ take 45000 out
                            @ ''\<newline>\<newline>[Content truncated due to size limit]''
                     else ''File: '' @ q @ ''\<newline>\<newline>'' @ out)), v'))\<close>
proof -
  have v2: "getFileContent2 env (Some p) w
          = (Inr (if length c > 45000 then take 45000 c @ truncation_marker else c), w')"
    if "path_join localPath (Some p) = Inr fullPath"
      and "readFile env fullPath (snd (pullLatest env w)) = (Inr c, w')"
    using that
    by (subst getFileContent2_def, subst pullLatest_returns) (simp add: MAX_FILE_SIZE_def)
  have v1: "getFileContent1 execAsync (Some q) v
          = (Inr (text_response
                    (if length out > 45000
                     then ''File content (truncated to 45KB):\<newline>\<newline>'' @ take 45000 out
                            @ ''\<newline>\<newline>[Content truncated due to size limit]''
                     else ''File: '' @ q @ ''\<newline>\<newline>'' @ out)), v')"
    if "q \<noteq> []"
      and \<open>execAsync (''cat "./rootz-project/'' @ q @ ''"'') v = (Inr out, v')\<close>
    using that by (simp add: getFileContent1_def cat_command_def LOCAL_PATH_def)
  from v2 v1 no_dotdot_inside [of p] join_beside [of n] plain_outside [of n] show ?thesis
    by blast
qed

theorem getFileContent_unguarded_witness:
  "path_join localPath (Some ''/etc/passwd'') = Inr ''rootz-sync/etc/passwd''
   \<and> inside_root ''rootz-sync/etc/passwd''
   \<and> getFileContent2 (node no_parser no_printer) (Some ''../secret.txt'') offline_world
       = (Inr ''top secret'',
          offline_world\<lparr>journal := [''pull ./rootz-sync'', ''readFile secret.txt'']\<rparr>)
   \<and> getFileContent2 (node no_parser no_printer) (Some ''../big.txt'') beside_world
       = (Inr (take 45000 big_file @ truncation_marker),
          beside_world\<lparr>journal := [''pull ./rootz-sync'', ''readFile big.txt'']\<rparr>)
   \<and> getFileContent1 shell (Some ''../secret.txt'') offline_world
       = (Inr (text_response ''File: ../secret.txt\<newline>\<newline>top secret''),
          offline_world\<lparr>journal := [''readFile secret.txt'']\<rparr>)"
proof -
  let ?node = "node no_parser no_printer"
  have n: "''..'' \<notin> set (split_on (\<lambda>c. c = CHR ''/'') ''/etc/passwd'')"
    by simp
  have j: "path_join localPath (Some ''/etc/passwd'') = Inr ''rootz-sync/etc/passwd''"
    by (simp add: path_defs)
  have s: "''secret.txt'' \<noteq> [] \<and> CHR ''/'' \<notin> set ''secret.txt'' \<and> ''secret.txt'' \<noteq> ''.''
        \<and> ''secret.txt'' \<noteq> ''..'' \<and> ''secret.txt'' \<noteq> ''rootz-sync''"
    by simp
  have r: "readFile ?node ''secret.txt'' (snd (pullLatest ?node offline_world))
           = (Inr ''top secret'',
              offline_world\<lparr>journal := [''pull ./rootz-sync'', ''readFile secret.txt'']\<rparr>)"
    by (simp add: pullLatest_def world_defs path_defs offline_world_def)
  have x: \<open>''../secret.txt'' \<noteq> []
           \<and> shell (''cat "./rootz-project/'' @ ''../secret.txt'' @ ''"'') offline_world
               = (Inr ''top secret'', offline_world\<lparr>journal := [''readFile secret.txt'']\<rparr>)\<close>
    by (simp add: command_defs world_defs path_defs offline_world_def)
  have a: "path_join localPath (Some ''/etc/passwd'') = Inr ''rootz-sync/etc/passwd''
     \<and> inside_root ''rootz-sync/etc/passwd''
     \<and> getFileContent2 ?node (Some ''../secret.txt'') offline_world
       = (Inr ''top secret'',
          offline_world\<lparr>journal := [''pull ./rootz-sync'', ''readFile secret.txt'']\<rparr>)
     \<and> getFileContent1 shell (Some ''../secret.txt'') offline_world
       = (Inr (text_response ''File: ../secret.txt\<newline>\<newline>top secret''),
          offline_world\<lparr>journal := [''readFile secret.txt'']\<rparr>)"
    using getFileContent_unguarded [where p = "''/etc/passwd''" and n = "''secret.txt''"
        and env = ?node and w = offline_world and fullPath = "''x''" and c = "[]" and w' = offline_world
        and q = "''../secret.txt''" and execAsync = shell and v = offline_world
        and out = "''top secret''"
        and v' = "offline_world\<lparr>journal := [''readFile secret.txt'']\<rparr>"]
      getFileContent_unguarded [where p = "''../secret.txt''" and n = "''secret.txt''"
        and env = ?node and w = offline_world and fullPath = "''secret.txt''"
        and c = "''top secret''"
        and w' = "offline_world\<lparr>journal := [''pull ./rootz-sync'', ''readFile secret.txt'']\<rparr>"
        and q = "''../secret.txt''" and execAsync = shell and v = offline_world
        and out = "''top secret''"
        and v' = "offline_world\<lparr>journal := [''readFile secret.txt'']\<rparr>"]
      n j s r x
    by simp
  have rb: "readFile ?node ''big.txt'' (snd (pullLatest ?node beside_world))
           = (Inr big_file, beside_world\<lparr>journal := [''pull ./rootz-sync'', ''readFile big.txt'']\<rparr>)"
    by (simp add: pullLatest_def world_defs path_defs beside_world_def)
  have jb: "path_join localPath (Some ''../big.txt'') = Inr ''big.txt''"
    by (simp add: path_defs)
  have lb: "length big_file > 45000"
    by (simp add: big_file_def)
  have b: "getFileContent2 ?node (Some ''../big.txt'') beside_world
       = (Inr (take 45000 big_file @ truncation_marker),
          beside_world\<lparr>journal := [''pull ./rootz-sync'', ''readFile big.txt'']\<rparr>)"
    using getFileContent_unguarded [where p = "''../big.txt''" and n = "''big.txt''"
        and env = ?node and w = beside_world and fullPath = "''big.txt''" and c = big_file
        and w' = "beside_world\<lparr>journal := [''pull ./rootz-sync'', ''readFile big.txt'']\<rparr>"
        and q = "[]" and execAsync = shell and v = offline_world and out = "[]" and v' = offline_world]
      rb jb lb
    by simp
  from a b show ?thesis by simp
qed

section \<open>A missing path\<close>




section \<open>Synchronising the mirror\<close>

text \<open>
  C5, as the specification states it: a clone that fails because the directory is there
  falls through to the pull, and any other failure of the clone is fatal. The first
  variant catches every failure of the clone alike: here the clone fails on the checkout,
  the pull succeeds, and the operation reports success.
\<close>

theorem C5_counterexample:
  "syncRepository checkout_failed [] = (Inr sync_ok, [clone_command, pull_command])"
  by (simp add: syncRepository_def checkout_failed_def command_defs LOCAL_PATH_def)

text \<open>
  C5, amended: in the first variant, when the clone fails, whatever its error, the
  operation falls through to the pull of branch \<open>main\<close> into the directory, and its
  outcome is the pull's: success when the pull succeeds, and the error
  \<open>Failed to sync repository\<close> with the pull's error when the pull fails. The error of
  the clone is not looked at.
\<close>

theorem sync_falls_through:
  assumes "execAsync clone_command w = (Inl clone_error, w1)"
  shows "(execAsync pull_command w1 = (Inr out, w2) \<longrightarrow>
            syncRepository execAsync w = (Inr sync_ok, w2))
       \<and> (execAsync pull_command w1 = (Inl pull_error, w2) \<longrightarrow>
            syncRepository execAsync w
              = (Inl (McpError InternalError (''Failed to sync repository: '' @ toString pull_error)), w2))"
  using assms by (simp add: syncRepository_def)

theorem sync_falls_through_witness:
  "syncRepository shell online_world
     = (Inr sync_ok,
        online_world\<lparr>disk := [(''rootz-sync/index.html'', ''<p>old</p>''),
                               (''rootz-project/index.html'', ''<p>new</p>'')],
                      journal := [''clone ./rootz-project'', ''pull ./rootz-project'']\<rparr>)
   \<and> syncRepository shell offline_world
     = (Inl (McpError InternalError ''Failed to sync repository: Error: fatal: unable to access origin''),
        offline_world\<lparr>journal := [''clone ./rootz-project'', ''pull ./rootz-project'']\<rparr>)"
proof -
  have c: "shell clone_command online_world
             = (Inl (Error ''fatal: destination path already exists and is not an empty directory: ./rootz-project''),
                online_world\<lparr>journal := [''clone ./rootz-project'']\<rparr>)"
    by (simp add: command_defs world_defs path_defs online_world_def)
  have p: "shell pull_command (online_world\<lparr>journal := [''clone ./rootz-project'']\<rparr>)
             = (Inr ''Already up to date.'',
                online_world\<lparr>disk := [(''rootz-sync/index.html'', ''<p>old</p>''),
                               (''rootz-project/index.html'', ''<p>new</p>'')],
                      journal := [''clone ./rootz-project'', ''pull ./rootz-project'']\<rparr>)"
    by (simp add: command_defs world_defs path_defs online_world_def)
  have c': "shell clone_command offline_world
             = (Inl (Error ''fatal: destination path already exists and is not an empty directory: ./rootz-project''),
                offline_world\<lparr>journal := [''clone ./rootz-project'']\<rparr>)"
    by (simp add: command_defs world_defs path_defs offline_world_def)
  have p': "shell pull_command (offline_world\<lparr>journal := [''clone ./rootz-project'']\<rparr>)
             = (Inl (Error ''fatal: unable to access origin''),
                offline_world\<lparr>journal := [''clone ./rootz-project'', ''pull ./rootz-project'']\<rparr>)"
    by (simp add: command_defs world_defs path_defs offline_world_def)
  have a: "syncRepository shell online_world
     = (Inr sync_ok,
        online_world\<lparr>disk := [(''rootz-sync/index.html'', ''<p>old</p>''),
                               (''rootz-project/index.html'', ''<p>new</p>'')],
                      journal := [''clone ./rootz-project'', ''pull ./rootz-project'']\<rparr>)"
    using sync_falls_through [where execAsync = shell, OF c, where out = "''Already up to date.''"
        and pull_error = "Error []"
        and ?w2.0 = "online_world\<lparr>disk := [(''rootz-sync/index.html'', ''<p>old</p>''),
                               (''rootz-project/index.html'', ''<p>new</p>'')],
                      journal := [''clone ./rootz-project'', ''pull ./rootz-project'']\<rparr>"] p
    by simp
  have b: "syncRepository shell offline_world
     = (Inl (McpError InternalError ''Failed to sync repository: Error: fatal: unable to access origin''),
        offline_world\<lparr>journal := [''clone ./rootz-project'', ''pull ./rootz-project'']\<rparr>)"
    using sync_falls_through [where execAsync = shell, OF c', where out = "[]"
        and pull_error = "Error ''fatal: unable to access origin''"
        and ?w2.0 = "offline_world\<lparr>journal := [''clone ./rootz-project'', ''pull ./rootz-project'']\<rparr>"] p'
    by (simp add: toString_def)
  from a b show ?thesis by simp
qed

text \<open>
  C7, as the specification states it: every failure of a sync reaches the caller as an
  error. In the second variant the clone of \<open>initializeSync\<close> fails, the remote being out
  of reach, and \<open>initializeSync\<close> returns normally.
\<close>

theorem C7_counterexample:
  "fst (clone (node no_parser no_printer) REPO_URL localPath
          (snd (rm (node no_parser no_printer) localPath offline_world)))
     = Inl (Error ''fatal: unable to access https://github.com/kenjirou-ozi/rootz-project.git'')
   \<and> fst (initializeSync (node no_parser no_printer) offline_world) = Inr ()"
  by (simp add: initializeSync_def command_defs world_defs path_defs offline_world_def)

text \<open>
  C7, amended: in the first variant the sync operation fails if and only if the clone
  fails and the pull that follows it fails, and the failure is an \<open>McpError\<close> with the
  code \<open>InternalError\<close> and the message \<open>Failed to sync repository: \<close> followed by the
  pull's error; in the second variant \<open>initializeSync\<close> and \<open>pullLatest\<close> catch every
  failure, log it, and always return normally.
\<close>

theorem sync_failure:
  "((\<exists>m. fst (syncRepository execAsync w) = Inl m) \<longleftrightarrow>
      (\<exists>e. fst (execAsync clone_command w) = Inl e)
      \<and> (\<exists>e. fst (execAsync pull_command (snd (execAsync clone_command w))) = Inl e))
   \<and> (fst (syncRepository execAsync w) = Inl m \<longrightarrow>
        (\<exists>e. fst (execAsync pull_command (snd (execAsync clone_command w))) = Inl e
             \<and> m = McpError InternalError (''Failed to sync repository: '' @ toString e)))
   \<and> fst (initializeSync env v) = Inr ()
   \<and> fst (pullLatest env v) = Inr ()"
proof -
  obtain r1 w1 where c: "execAsync clone_command w = (r1, w1)"
    by (cases "execAsync clone_command w")
  obtain r2 w2 where p: "execAsync pull_command w1 = (r2, w2)"
    by (cases "execAsync pull_command w1")
  have a: "(\<exists>m. fst (syncRepository execAsync w) = Inl m) \<longleftrightarrow>
      (\<exists>e. fst (execAsync clone_command w) = Inl e)
      \<and> (\<exists>e. fst (execAsync pull_command (snd (execAsync clone_command w))) = Inl e)"
    using c p by (cases r1; cases r2) (simp_all add: syncRepository_def)
  have b: "\<exists>e. fst (execAsync pull_command (snd (execAsync clone_command w))) = Inl e
             \<and> m = McpError InternalError (''Failed to sync repository: '' @ toString e)"
    if "fst (syncRepository execAsync w) = Inl m"
    using that c p by (cases r1; cases r2) (auto simp: syncRepository_def)
  have i: "fst (initializeSync env v) = Inr ()"
    by (simp add: initializeSync_def split: prod.splits sum.splits)
  have l: "fst (pullLatest env v) = Inr ()"
    by (simp add: pullLatest_def split: prod.splits sum.splits)
  from a b i l show ?thesis by blast
qed

theorem sync_failure_witness:
  "fst (syncRepository shell offline_world)
     = Inl (McpError InternalError ''Failed to sync repository: Error: fatal: unable to access origin'')
   \<and> fst (shell clone_command offline_world)
       = Inl (Error ''fatal: destination path already exists and is not an empty directory: ./rootz-project'')
   \<and> fst (shell pull_command (snd (shell clone_command offline_world)))
       = Inl (Error ''fatal: unable to access origin'')"
proof -
  have s: "fst (syncRepository shell offline_world)
     = Inl (McpError InternalError ''Failed to sync repository: Error: fatal: unable to access origin'')"
    by (simp add: syncRepository_def toString_def command_defs world_defs path_defs offline_world_def)
  show ?thesis
    using sync_failure [where execAsync = shell and w = offline_world
        and m = "McpError InternalError ''Failed to sync repository: Error: fatal: unable to access origin''"
        and env = "node no_parser no_printer" and v = offline_world] s
    by (simp add: command_defs world_defs path_defs offline_world_def toString_def)
qed

section \<open>The analysis of a truncated file\<close>

lemma exec_all_skip:
  "c \<noteq> CHR ''<'' \<Longrightarrow> exec_all tagRegex (replicate n c @ s) = exec_all tagRegex s"
  by (induction n) simp_all

text \<open>
  C10: in the second variant the analysis runs on what the bounded read returns. For a
  file of more than 45000 characters it is the analysis of the first 45000 characters
  followed by the truncation marker. Nothing of the file beyond the limit reaches the
  parser: two files of more than 45000 characters with the same first 45000 characters
  have the same analysis, so no class, id or element found only beyond the limit is in the
  result.
\<close>

theorem analysis_of_truncated_file:
  assumes "path_join localPath (Some p) = Inr fullPath"
    and "readFile env fullPath (snd (pullLatest env w)) = (Inr c, w')"
    and "length c > 45000"
  shows "analyzeHTML env (Some p) w
           = (Inr (analysis2 (select_all env (take 45000 c @ truncation_marker))), w')
         \<and> (readFile env fullPath (snd (pullLatest env v)) = (Inr d, v')
              \<and> length d > 45000 \<and> take 45000 d = take 45000 c \<longrightarrow>
            fst (analyzeHTML env (Some p) v) = fst (analyzeHTML env (Some p) w))"
proof -
  have cut: "analyzeHTML env (Some p) u
               = (Inr (analysis2 (select_all env (take 45000 x @ truncation_marker))), u')"
    if "readFile env fullPath (snd (pullLatest env u)) = (Inr x, u')" and "length x > 45000"
    for u u' x
    using that assms(1)
    by (subst analyzeHTML_def, subst getFileContent2_def, subst pullLatest_returns)
       (simp add: MAX_FILE_SIZE_def)
  from cut [OF assms(2,3)] cut [of v d v'] show ?thesis
    by auto
qed

theorem analysis_of_truncated_file_witness:
  "analyzeHTML (node tag_parser no_printer) (Some ''big.html'') offline_world
     = (Inr \<lparr>classes2 = [], ids2 = [], elements2 = []\<rparr>,
        offline_world\<lparr>journal := [''pull ./rootz-sync'', ''readFile rootz-sync/big.html'']\<rparr>)
   \<and> elements2 (analysis2 (tag_parser big_file)) = [\<lparr>e_tag = ''p'', e_class = None, e_id = None\<rparr>]
   \<and> fst (analyzeHTML (node tag_parser no_printer) (Some ''big.html'') other_world)
       = Inr \<lparr>classes2 = [], ids2 = [], elements2 = []\<rparr>"
proof -
  have a: "path_join localPath (Some ''big.html'') = Inr ''rootz-sync/big.html''"
    by (simp add: path_defs)
  have b: "readFile (node tag_parser no_printer) ''rootz-sync/big.html''
             (snd (pullLatest (node tag_parser no_printer) offline_world))
           = (Inr big_file,
              offline_world\<lparr>journal := [''pull ./rootz-sync'', ''readFile rootz-sync/big.html'']\<rparr>)"
    by (simp add: pullLatest_def world_defs path_defs offline_world_def)
  have b': "readFile (node tag_parser no_printer) ''rootz-sync/big.html''
             (snd (pullLatest (node tag_parser no_printer) other_world))
           = (Inr other_big_file,
              other_world\<lparr>journal := [''pull ./rootz-sync'', ''readFile rootz-sync/big.html'']\<rparr>)"
    by (simp add: pullLatest_def world_defs path_defs other_world_def)
  have l: "length big_file > 45000"
    by (simp add: big_file_def)
  have l': "length other_big_file > 45000 \<and> take 45000 other_big_file = take 45000 big_file"
    by (simp add: big_file_def other_big_file_def)
  have t: "take 45000 big_file = replicate 45000 CHR ''a''"
    by (simp add: big_file_def)
  have m: "exec_all tagRegex truncation_marker = []"
    by code_simp
  have cut: "tag_parser (take 45000 big_file @ truncation_marker) = []"
    by (simp add: tag_parser_def t exec_all_skip m)
  have f: \<open>exec_all tagRegex ''<p id="late">'' = [''p'']\<close>
    by code_simp
  have "exec_all tagRegex big_file = [''p'']"
    unfolding big_file_def by (subst exec_all_skip) (simp, rule f)
  then have full: "tag_parser big_file = [\<lparr>tagName = Some ''p'', attribs = []\<rparr>]"
    by (simp add: tag_parser_def)
  have e: "elements2 (analysis2 [\<lparr>tagName = Some ''p'', attribs = []\<rparr>])
             = [\<lparr>e_tag = ''p'', e_class = None, e_id = None\<rparr>]"
    by code_simp
  have n: "analysis2 [] = \<lparr>classes2 = [], ids2 = [], elements2 = []\<rparr>"
    by code_simp
  show ?thesis
    using analysis_of_truncated_file [where env = "node tag_parser no_printer", OF a b l,
        where v = other_world and d = other_big_file
          and v' = "other_world\<lparr>journal := [''pull ./rootz-sync'', ''readFile rootz-sync/big.html'']\<rparr>"]
      b' l'
    by (simp add: node_def cut full e n)
qed

end
